theory Spec2Isabelle
  imports Main
begin

section \<open>Values, exceptions and effects\<close>

text \<open>
  The program is \<^verbatim>\<open>email_sendar.py\<close>: \<^verbatim>\<open>load_config\<close>, \<^verbatim>\<open>create_email\<close>,
  \<^verbatim>\<open>send_email\<close> and \<^verbatim>\<open>main\<close>. Python strings and \<^verbatim>\<open>bytes\<close> are HOL strings.
  An exception is a value of \<open>exn\<close>; the type holds subclasses of Python's
  \<^verbatim>\<open>Exception\<close> only, which is what every \<^verbatim>\<open>except Exception\<close> of the source catches.
  Each constructor carries the text that \<^verbatim>\<open>str(e)\<close> prints, except \<open>KeyError\<close>, which
  carries the missing key.
\<close>

datatype exn =
    FileNotFoundError string
  | PermissionError string
  | KeyError string
  | ValueError string
  | UnicodeEncodeError string
  | ConfigParserError string
  | SMTPConnectError string
  | SMTPServerDisconnected string
  | SMTPAuthenticationError string
  | OtherException string

definition squote :: char where
  "squote = CHR 0x27"

definition dquote :: char where
  "dquote = CHR 0x22"

text \<open>\<^verbatim>\<open>str(e)\<close>, as the f-strings of the handlers format it. A \<^verbatim>\<open>KeyError\<close> prints
  the \<^verbatim>\<open>repr\<close> of its key; the keys raised here are the literals of the source.\<close>

fun exn_str :: "exn \<Rightarrow> string" where
  "exn_str (FileNotFoundError m) = m"
| "exn_str (PermissionError m) = m"
| "exn_str (KeyError k) = squote # k @ [squote]"
| "exn_str (ValueError m) = m"
| "exn_str (UnicodeEncodeError m) = m"
| "exn_str (ConfigParserError m) = m"
| "exn_str (SMTPConnectError m) = m"
| "exn_str (SMTPServerDisconnected m) = m"
| "exn_str (SMTPAuthenticationError m) = m"
| "exn_str (OtherException m) = m"

datatype level = INFO | ERROR

text \<open>
  What a run does to the outside: log records, and the calls made on the SMTP client.
  \<open>Call f\<close> is a ghost event, recorded by \<open>main\<close> when it invokes \<open>f\<close>.
\<close>

datatype event =
    Log level string
  | Call string
  | Connect string int
  | Starttls
  | Login string string
  | Sendmail string "string list" string
  | Quit

text \<open>A computation returns an exception or a value, and the events it produced.\<close>

type_synonym 'a result = "(exn + 'a) \<times> event list"

definition ok :: "'a \<Rightarrow> 'a result" where
  "ok x = (Inr x, [])"

definition raise :: "exn \<Rightarrow> 'a result" where
  "raise e = (Inl e, [])"

definition lift :: "exn + 'a \<Rightarrow> 'a result" where
  "lift r = (r, [])"

definition emit :: "event \<Rightarrow> unit result" where
  "emit ev = (Inr (), [ev])"

definition and_then :: "'a result \<Rightarrow> ('a \<Rightarrow> 'b result) \<Rightarrow> 'b result" where
  "and_then m f =
     (case m of
        (Inl e, tr) \<Rightarrow> (Inl e, tr)
      | (Inr x, tr) \<Rightarrow> (case f x of (r, tr') \<Rightarrow> (r, tr @ tr')))"

definition logging_error :: "string \<Rightarrow> unit result" where
  "logging_error m = emit (Log ERROR m)"

definition logging_info :: "string \<Rightarrow> unit result" where
  "logging_info m = emit (Log INFO m)"

section \<open>Library functions the program calls\<close>

text \<open>\<^verbatim>\<open>sep.join(xs)\<close>.\<close>

fun join :: "string \<Rightarrow> string list \<Rightarrow> string" where
  "join sep [] = []"
| "join sep [x] = x"
| "join sep (x # y # ys) = x @ sep @ join sep (y # ys)"

text \<open>\<^verbatim>\<open>p.rfind(c)\<close>: the last index of \<open>c\<close>, or \<open>-1\<close>. The scan keeps the index \<open>i\<close> of
  the next character and the last hit so far.\<close>

fun rfind_from :: "char \<Rightarrow> string \<Rightarrow> int \<Rightarrow> int \<Rightarrow> int" where
  "rfind_from c [] i found = found"
| "rfind_from c (x # xs) i found = rfind_from c xs (i + 1) (if x = c then i else found)"

definition rfind :: "string \<Rightarrow> char \<Rightarrow> int" where
  "rfind p c = rfind_from c p 0 (- 1)"

text \<open>\<^verbatim>\<open>os.path.basename\<close> of \<^verbatim>\<open>posixpath\<close>:
  \<^verbatim>\<open>i = p.rfind('/') + 1; return p[i:]\<close>.\<close>

definition basename :: "string \<Rightarrow> string" where
  "basename p = (let i = rfind p (CHR ''/'') + 1 in drop (nat i) p)"

definition is_ascii :: "string \<Rightarrow> bool" where
  "is_ascii s = (\<not> list_ex digit7 s)"

definition specials :: string where
  "specials = ''[]'' @ [CHR 0x5C] @ ''()<>@,:;.'' @ [dquote]"

definition escape_name :: "string \<Rightarrow> string" where
  "escape_name n = concat (map (\<lambda>c. if c = CHR 0x5C \<or> c = dquote then [CHR 0x5C, c] else [c]) n)"

text \<open>
  \<^verbatim>\<open>email.utils.formataddr((name, address))\<close>: the address must encode as ASCII
  (\<^verbatim>\<open>address.encode('ascii')\<close> raises otherwise); a name is quoted when it holds a special
  character, with backslash and double quote escaped. The program's only display name is
  the literal \<^verbatim>\<open>'Sender'\<close>; the RFC 2047 encoding of a non-ASCII display name is left out.
  The text carried by the error stands for the codec's message, which names the
  offending character and its position.
\<close>

definition formataddr :: "string \<times> string \<Rightarrow> exn + string" where
  "formataddr pair =
     (case pair of (name, address) \<Rightarrow>
        if \<not> is_ascii address then
          Inl (UnicodeEncodeError ''ascii codec cannot encode address'')
        else if name = [] then Inr address
        else
          let quotes = (if list_ex (\<lambda>c. c \<in> set specials) name then [dquote] else [])
          in Inr (quotes @ escape_name name @ quotes @ '' <'' @ address @ ''>''))"

text \<open>\<^verbatim>\<open>str.lower\<close> on ASCII letters, which is \<^verbatim>\<open>ConfigParser.optionxform\<close>: the
  parser stores every option name through it, and looks every option name up through it.
  A capital letter outside ASCII is left as it is, where \<^verbatim>\<open>str.lower\<close> lower-cases it as
  well; the option names the program looks up are ASCII.\<close>

definition lower_char :: "char \<Rightarrow> char" where
  "lower_char c =
     (let n = (of_char c :: nat) in if 65 \<le> n \<and> n \<le> 90 then char_of (n + 32) else c)"

definition optionxform :: "string \<Rightarrow> string" where
  "optionxform s = map lower_char s"

section \<open>MIME messages\<close>

text \<open>
  A part has its content type, the \<^verbatim>\<open>name\<close> parameter of the content type when the
  constructor got one, the headers set on it by item assignment, and its payload.
  A message has its header list, in the order of assignment (\<^verbatim>\<open>msg[k] = v\<close> appends), and
  its attached parts.
\<close>

record mime_part =
  maintype :: string
  subtype :: string
  name_param :: "string option"
  part_headers :: "(string \<times> string) list"
  payload :: string

record mime_message =
  headers :: "(string \<times> string) list"
  parts :: "mime_part list"

definition MIMEMultipart :: mime_message where
  "MIMEMultipart =
     \<lparr>headers = [(''Content-Type'', ''multipart/mixed''), (''MIME-Version'', ''1.0'')],
      parts = []\<rparr>"

definition MIMEText :: "string \<Rightarrow> string \<Rightarrow> mime_part" where
  "MIMEText txt sub =
     \<lparr>maintype = ''text'', subtype = sub, name_param = None, part_headers = [], payload = txt\<rparr>"

definition MIMEApplication :: "string \<Rightarrow> string \<Rightarrow> mime_part" where
  "MIMEApplication dat nm =
     \<lparr>maintype = ''application'', subtype = ''octet-stream'', name_param = Some nm,
      part_headers = [], payload = dat\<rparr>"

definition set_header :: "string \<Rightarrow> string \<Rightarrow> mime_message \<Rightarrow> mime_message" where
  "set_header k v message = message\<lparr>headers := headers message @ [(k, v)]\<rparr>"

definition set_part_header :: "string \<Rightarrow> string \<Rightarrow> mime_part \<Rightarrow> mime_part" where
  "set_part_header k v part = part\<lparr>part_headers := part_headers part @ [(k, v)]\<rparr>"

definition attach :: "mime_part \<Rightarrow> mime_message \<Rightarrow> mime_message" where
  "attach part message = message\<lparr>parts := parts message @ [part]\<rparr>"

section \<open>The file system and the configuration parser\<close>

text \<open>
  \<open>Parsed doc\<close> is an INI file as written: its sections in order, each with its option
  names and raw values. \<open>Unopenable\<close> is a file that \<^verbatim>\<open>ConfigParser.read\<close> cannot open,
  which it skips without an error; \<open>Malformed e\<close> is a file on which the parser raises
  \<open>e\<close> (no section header, a duplicate section or option).
\<close>

type_synonym ini_doc = "(string \<times> (string \<times> string) list) list"

datatype ini_read = Unopenable | Malformed exn | Parsed ini_doc

text \<open>
  The world outside the process: \<^verbatim>\<open>os.path.exists\<close>, the configuration file,
  \<^verbatim>\<open>open(path, 'rb').read()\<close>, and the outcome of \<^verbatim>\<open>BasicInterpolation\<close> on a raw
  value that holds a percent sign.
\<close>

record world =
  path_exists :: "string \<Rightarrow> bool"
  ini_file :: "string \<Rightarrow> ini_read"
  read_bytes :: "string \<Rightarrow> exn + string"
  interpolate :: "string \<Rightarrow> exn + string"

text \<open>The parser's store: the options of \<^verbatim>\<open>[DEFAULT]\<close> and of every other section,
  under their \<open>optionxform\<close>ed names.\<close>

record parser =
  defaults :: "(string \<times> string) list"
  sections :: "(string \<times> (string \<times> string) list) list"

definition store_options :: "(string \<times> string) list \<Rightarrow> (string \<times> string) list" where
  "store_options opts = map (\<lambda>(k, v). (optionxform k, v)) opts"

definition read_doc :: "ini_doc \<Rightarrow> parser" where
  "read_doc doc =
     \<lparr>defaults = concat (map (\<lambda>(s, opts). store_options opts)
                     (filter (\<lambda>(s, opts). s = ''DEFAULT'') doc)),
      sections = map (\<lambda>(s, opts). (s, store_options opts))
                     (filter (\<lambda>(s, opts). s \<noteq> ''DEFAULT'') doc)\<rparr>"

definition config_read :: "world \<Rightarrow> string \<Rightarrow> exn + parser" where
  "config_read w path =
     (case ini_file w path of
        Unopenable \<Rightarrow> Inr \<lparr>defaults = [], sections = []\<rparr>
      | Malformed e \<Rightarrow> Inl e
      | Parsed doc \<Rightarrow> Inr (read_doc doc))"

text \<open>A \<^verbatim>\<open>SectionProxy\<close>: the section's own options and the defaults behind them.\<close>

record section_proxy =
  own_options :: "(string \<times> string) list"
  default_options :: "(string \<times> string) list"

text \<open>\<^verbatim>\<open>config[section]\<close> on the parser.\<close>

definition parser_getitem :: "parser \<Rightarrow> string \<Rightarrow> exn + section_proxy" where
  "parser_getitem p s =
     (if s = ''DEFAULT'' then Inr \<lparr>own_options = defaults p, default_options = []\<rparr>
      else case map_of (sections p) s of
        None \<Rightarrow> Inl (KeyError s)
      | Some opts \<Rightarrow> Inr \<lparr>own_options = opts, default_options = defaults p\<rparr>)"

definition before_get :: "world \<Rightarrow> string \<Rightarrow> exn + string" where
  "before_get w v = (if CHR ''%'' \<in> set v then interpolate w v else Inr v)"

text \<open>\<^verbatim>\<open>proxy[key]\<close>: the key goes through \<open>optionxform\<close>, the section's own value wins
  over the default, and the value is interpolated.\<close>

definition proxy_getitem :: "world \<Rightarrow> section_proxy \<Rightarrow> string \<Rightarrow> exn + string" where
  "proxy_getitem w proxy key =
     (case map_of (own_options proxy @ default_options proxy) (optionxform key) of
        None \<Rightarrow> Inl (KeyError key)
      | Some v \<Rightarrow> before_get w v)"

text \<open>The keys a \<^verbatim>\<open>SectionProxy\<close> iterates over: the stored option names.\<close>

definition proxy_keys :: "section_proxy \<Rightarrow> string list" where
  "proxy_keys proxy =
     remdups (map fst (own_options proxy)) @
     filter (\<lambda>k. k \<notin> set (map fst (own_options proxy)))
       (remdups (map fst (default_options proxy)))"

fun dict_items :: "world \<Rightarrow> section_proxy \<Rightarrow> string list \<Rightarrow> exn + (string \<times> string) list" where
  "dict_items w proxy [] = Inr []"
| "dict_items w proxy (k # ks) =
     (case proxy_getitem w proxy k of
        Inl e \<Rightarrow> Inl e
      | Inr v \<Rightarrow> (case dict_items w proxy ks of
                   Inl e \<Rightarrow> Inl e
                 | Inr kvs \<Rightarrow> Inr ((k, v) # kvs)))"

text \<open>\<^verbatim>\<open>dict(proxy)\<close>: a plain dictionary from the proxy's keys to its values.\<close>

definition dict_of_proxy :: "world \<Rightarrow> section_proxy \<Rightarrow> exn + (string \<times> string) list" where
  "dict_of_proxy w proxy = dict_items w proxy (proxy_keys proxy)"

text \<open>\<^verbatim>\<open>d[key]\<close> on a plain dictionary: the key as given.\<close>

definition dict_getitem :: "(string \<times> string) list \<Rightarrow> string \<Rightarrow> exn + string" where
  "dict_getitem d key = (case map_of d key of None \<Rightarrow> Inl (KeyError key) | Some v \<Rightarrow> Inr v)"

section \<open>load\_config\<close>

definition CONFIG_FILE :: string where
  "CONFIG_FILE = ''config.ini''"

definition load_config :: "world \<Rightarrow> string \<Rightarrow> section_proxy result" where
  "load_config w path =
     (if \<not> path_exists w path then
        and_then (logging_error (''Configuration file not found: '' @ path)) (\<lambda>_.
        raise (FileNotFoundError (''Configuration file not found: '' @ path)))
      else
        and_then (lift (config_read w path)) (\<lambda>config.
        lift (parser_getitem config ''EMAIL'')))"

section \<open>create\_email\<close>

text \<open>
  The attachment loop. The \<^verbatim>\<open>try\<close> body opens and reads the file, builds the part
  (\<open>file_part\<close>: \<^verbatim>\<open>MIMEApplication\<close> with the base name of the path, then its
  \<^verbatim>\<open>Content-Disposition\<close>) and attaches it; on an exception the handler logs and the
  loop goes on with the message as it was.
\<close>

definition file_part :: "string \<Rightarrow> string \<Rightarrow> mime_part" where
  "file_part dat file_path =
     set_part_header ''Content-Disposition''
       (''attachment; filename='' @ [dquote] @ basename file_path @ [dquote])
       (MIMEApplication dat (basename file_path))"

fun attach_files :: "world \<Rightarrow> string list \<Rightarrow> mime_message \<Rightarrow> mime_message result" where
  "attach_files w [] message = ok message"
| "attach_files w (file_path # rest) message =
     (case read_bytes w file_path of
        Inr dat \<Rightarrow> attach_files w rest (attach (file_part dat file_path) message)
      | Inl e \<Rightarrow>
          and_then (logging_error (''Failed to attach '' @ file_path @ '': '' @ exn_str e)) (\<lambda>_.
          attach_files w rest message))"

definition create_email ::
  "world \<Rightarrow> string \<Rightarrow> string \<Rightarrow> string \<Rightarrow> string \<Rightarrow> string list \<Rightarrow> string list \<Rightarrow> string list
     \<Rightarrow> string \<Rightarrow> mime_message result" where
  "create_email w sender receiver subject body attachments cc bcc html_content =
     and_then (lift (formataddr (''Sender'', sender))) (\<lambda>from_addr.
       let message = MIMEMultipart;
           message = set_header ''From'' from_addr message;
           message = set_header ''To'' receiver message;
           message = (if cc \<noteq> [] then set_header ''Cc'' (join '', '' cc) message else message);
           message = set_header ''Subject'' subject message;
           message = (if html_content \<noteq> [] then attach (MIMEText html_content ''html'') message
                      else attach (MIMEText body ''plain'') message)
       in attach_files w attachments message)"

section \<open>send\_email\<close>

text \<open>
  The SMTP side: what \<^verbatim>\<open>int(...)\<close> makes of the port string, and the outcome of each
  call on the client (\<open>None\<close>: it returns; \<open>Some e\<close>: it raises \<open>e\<close>).
  \<open>smtp_connect\<close> is the constructor \<^verbatim>\<open>smtplib.SMTP(host, port)\<close>, \<open>smtp_quit\<close> the
  \<^verbatim>\<open>__exit__\<close> of the \<^verbatim>\<open>with\<close> statement, \<open>msg_as_string\<close> is \<^verbatim>\<open>message.as_string()\<close>.
\<close>

record smtp_env =
  int_of :: "string \<Rightarrow> exn + int"
  smtp_connect :: "string \<Rightarrow> int \<Rightarrow> exn option"
  smtp_starttls :: "exn option"
  smtp_login :: "string \<Rightarrow> string \<Rightarrow> exn option"
  msg_as_string :: "mime_message \<Rightarrow> exn + string"
  smtp_sendmail :: "string \<Rightarrow> string list \<Rightarrow> string \<Rightarrow> exn option"
  smtp_quit :: "exn option"

text \<open>A call on the client: the event, then its outcome.\<close>

definition smtp_op :: "event \<Rightarrow> exn option \<Rightarrow> unit result" where
  "smtp_op ev outcome = (case outcome of None \<Rightarrow> (Inr (), [ev]) | Some e \<Rightarrow> (Inl e, [ev]))"

text \<open>Leaving the \<^verbatim>\<open>with\<close> block, normally or by an exception, runs \<^verbatim>\<open>__exit__\<close>; an
  exception it raises replaces the outcome of the body.\<close>

definition with_exit :: "smtp_env \<Rightarrow> unit result \<Rightarrow> unit result" where
  "with_exit env blk =
     (case blk of (r, tr) \<Rightarrow>
        (case smtp_quit env of
           Some e \<Rightarrow> (Inl e, tr @ [Quit])
         | None \<Rightarrow> (r, tr @ [Quit])))"

definition try_except :: "'a result \<Rightarrow> (exn \<Rightarrow> 'a result) \<Rightarrow> 'a result" where
  "try_except m h =
     (case m of
        (Inl e, tr) \<Rightarrow> (case h e of (r, tr') \<Rightarrow> (r, tr @ tr'))
      | (Inr x, tr) \<Rightarrow> (Inr x, tr))"

text \<open>The body of the \<^verbatim>\<open>with\<close> statement, run on the connected client.\<close>

definition send_session ::
  "smtp_env \<Rightarrow> (string \<times> string) list \<Rightarrow> mime_message \<Rightarrow> string \<Rightarrow> string \<Rightarrow> string list
     \<Rightarrow> string list \<Rightarrow> unit result" where
  "send_session env config message sender receiver cc bcc =
     and_then (smtp_op Starttls (smtp_starttls env)) (\<lambda>_.
     and_then (lift (dict_getitem config ''USERNAME'')) (\<lambda>username.
     and_then (lift (dict_getitem config ''PASSWORD'')) (\<lambda>password.
     and_then (smtp_op (Login username password) (smtp_login env username password)) (\<lambda>_.
     let all_recipients = [receiver] @ cc @ bcc in
     and_then (lift (msg_as_string env message)) (\<lambda>txt.
     and_then (smtp_op (Sendmail sender all_recipients txt)
                 (smtp_sendmail env sender all_recipients txt)) (\<lambda>_.
     logging_info (''Email sent successfully to '' @ join '', '' all_recipients)))))))"

text \<open>The \<^verbatim>\<open>try\<close> block of \<^verbatim>\<open>send_email\<close>: the host and the port are looked up and the
  port converted, the constructor connects, and the session runs inside \<^verbatim>\<open>with\<close>.\<close>

definition send_block ::
  "smtp_env \<Rightarrow> (string \<times> string) list \<Rightarrow> mime_message \<Rightarrow> string \<Rightarrow> string \<Rightarrow> string list
     \<Rightarrow> string list \<Rightarrow> unit result" where
  "send_block env config message sender receiver cc bcc =
     and_then (lift (dict_getitem config ''SMTP_SERVER'')) (\<lambda>host.
     and_then (lift (dict_getitem config ''SMTP_PORT'')) (\<lambda>port_str.
     and_then (lift (int_of env port_str)) (\<lambda>port.
     and_then (smtp_op (Connect host port) (smtp_connect env host port)) (\<lambda>_.
     with_exit env (send_session env config message sender receiver cc bcc)))))"

text \<open>The \<^verbatim>\<open>except\<close> clauses of \<^verbatim>\<open>send_email\<close>, in the order of the source.\<close>

fun send_handler :: "exn \<Rightarrow> unit result" where
  "send_handler (SMTPConnectError m) = logging_error ''SMTP server connection failed.''"
| "send_handler (SMTPServerDisconnected m) = logging_error ''Server disconnected unexpectedly.''"
| "send_handler (SMTPAuthenticationError m) = logging_error ''Authentication failed.''"
| "send_handler e = logging_error (''Failed to send email: '' @ exn_str e)"

definition send_email ::
  "smtp_env \<Rightarrow> (string \<times> string) list \<Rightarrow> mime_message \<Rightarrow> string \<Rightarrow> string \<Rightarrow> string list
     \<Rightarrow> string list \<Rightarrow> bool \<Rightarrow> unit result" where
  "send_email env config message sender receiver cc bcc dry_run =
     (if dry_run then
        logging_info (''Dry run enabled. Email would be sent to: '' @ receiver)
      else
        try_except (send_block env config message sender receiver cc bcc) send_handler)"

section \<open>main\<close>

text \<open>The parsed command line.\<close>

record args =
  arg_receiver :: string
  arg_subject :: string
  arg_body :: string
  arg_html :: "string option"
  arg_attachments :: "string list"
  arg_cc :: "string list"
  arg_bcc :: "string list"
  arg_dry_run :: bool

text \<open>\<^verbatim>\<open>args.html or ""\<close>.\<close>

definition html_or_empty :: "string option \<Rightarrow> string" where
  "html_or_empty h = (case h of None \<Rightarrow> [] | Some s \<Rightarrow> if s = [] then [] else s)"

fun main_handler :: "exn \<Rightarrow> unit result" where
  "main_handler (FileNotFoundError m) =
     logging_error (''File or permission error: '' @ exn_str (FileNotFoundError m))"
| "main_handler (PermissionError m) =
     logging_error (''File or permission error: '' @ exn_str (PermissionError m))"
| "main_handler e = logging_error (''Unexpected error occurred: '' @ exn_str e)"

definition main :: "world \<Rightarrow> smtp_env \<Rightarrow> args \<Rightarrow> unit result" where
  "main w env a =
     try_except
       (and_then (load_config w CONFIG_FILE) (\<lambda>config.
        and_then (lift (proxy_getitem w config ''USERNAME'')) (\<lambda>sender.
        and_then (emit (Call ''create_email'')) (\<lambda>_.
        and_then (create_email w sender (arg_receiver a) (arg_subject a) (arg_body a)
                    (arg_attachments a) (arg_cc a) (arg_bcc a) (html_or_empty (arg_html a)))
          (\<lambda>message.
        and_then (lift (dict_of_proxy w config)) (\<lambda>config_dict.
        and_then (lift (proxy_getitem w config ''USERNAME'')) (\<lambda>sender'.
        and_then (emit (Call ''send_email'')) (\<lambda>_.
        send_email env config_dict message sender' (arg_receiver a) (arg_cc a) (arg_bcc a)
          (arg_dry_run a)))))))))
       main_handler"

section \<open>Reading a trace\<close>

text \<open>The recipient lists handed to \<^verbatim>\<open>server.sendmail\<close>, and the calls on the network.\<close>

fun sendmail_rcpts :: "event list \<Rightarrow> string list list" where
  "sendmail_rcpts [] = []"
| "sendmail_rcpts (Sendmail s rs t # evs) = rs # sendmail_rcpts evs"
| "sendmail_rcpts (ev # evs) = sendmail_rcpts evs"

fun is_network :: "event \<Rightarrow> bool" where
  "is_network (Log l m) = False"
| "is_network (Call f) = False"
| "is_network ev = True"

section \<open>What the claims speak of\<close>

text \<open>
  The parts of the files that could be read, in the order of the paths, and the log
  records of those that could not: the spec's "successfully read subset" of the
  attachments, against which the loop \<open>attach_files\<close> is compared.
\<close>

definition read_parts :: "world \<Rightarrow> string list \<Rightarrow> mime_part list" where
  "read_parts w paths =
     List.map_filter
       (\<lambda>p. case read_bytes w p of Inl e \<Rightarrow> None | Inr dat \<Rightarrow> Some (file_part dat p)) paths"

definition failure_logs :: "world \<Rightarrow> string list \<Rightarrow> event list" where
  "failure_logs w paths =
     List.map_filter
       (\<lambda>p. case read_bytes w p of
               Inl e \<Rightarrow> Some (Log ERROR (''Failed to attach '' @ p @ '': '' @ exn_str e))
             | Inr dat \<Rightarrow> None) paths"

text \<open>An option list whose names are all as \<open>optionxform\<close> leaves them.\<close>

definition stored :: "(string \<times> string) list \<Rightarrow> bool" where
  "stored kvs = list_all (\<lambda>kv. optionxform (fst kv) = fst kv) kvs"

subsection \<open>A concrete run\<close>

text \<open>
  A configuration file with the four keys as the spec writes them, a server that accepts
  everything, one readable file, and a command line.
\<close>

definition example_doc :: ini_doc where
  "example_doc =
     [(''EMAIL'', [(''SMTP_SERVER'', ''smtp.x.com''), (''SMTP_PORT'', ''587''),
                   (''USERNAME'', ''u@x.com''), (''PASSWORD'', ''pw'')])]"

definition example_world :: world where
  "example_world =
     \<lparr>path_exists = (\<lambda>p. p = ''config.ini''),
      ini_file = (\<lambda>p. Parsed example_doc),
      read_bytes = (\<lambda>p. if p = ''/tmp/docs/a.txt'' then Inr ''data''
                          else Inl (FileNotFoundError ''No such file or directory'')),
      interpolate = (\<lambda>v. Inr v)\<rparr>"

definition example_env :: smtp_env where
  "example_env =
     \<lparr>int_of = (\<lambda>s. if s = ''587'' then Inr 587 else Inl (ValueError ''invalid literal'')),
      smtp_connect = (\<lambda>h p. None),
      smtp_starttls = None,
      smtp_login = (\<lambda>u p. None),
      msg_as_string = (\<lambda>m. Inr ''wire''),
      smtp_sendmail = (\<lambda>s r t. None),
      smtp_quit = None\<rparr>"

text \<open>A plain dictionary with the keys \<^verbatim>\<open>send_email\<close> looks up.\<close>

definition example_config :: "(string \<times> string) list" where
  "example_config =
     [(''SMTP_SERVER'', ''smtp.x.com''), (''SMTP_PORT'', ''587''),
      (''USERNAME'', ''u@x.com''), (''PASSWORD'', ''pw'')]"

definition example_args :: args where
  "example_args =
     \<lparr>arg_receiver = ''a@x.com'', arg_subject = ''Hi'', arg_body = ''Hello'', arg_html = None,
      arg_attachments = [], arg_cc = [''b@x.com''], arg_bcc = [''c@x.com''],
      arg_dry_run = False\<rparr>"

text \<open>The message \<^verbatim>\<open>create_email\<close> builds for that command line.\<close>

definition example_message :: mime_message where
  "example_message =
     \<lparr>headers = [(''Content-Type'', ''multipart/mixed''), (''MIME-Version'', ''1.0''),
                 (''From'', ''Sender <u@x.com>''), (''To'', ''a@x.com''),
                 (''Cc'', ''b@x.com''), (''Subject'', ''Hi'')],
      parts = [MIMEText ''Hello'' ''plain'']\<rparr>"

text \<open>
  Two more configuration files that exist and have no \<^verbatim>\<open>EMAIL\<close> section. The first has
  one section, \<^verbatim>\<open>[SMTP]\<close>. The second is the single line \<^verbatim>\<open>USERNAME = u@x.com\<close> with no
  section header before it, on which the parser raises \<^verbatim>\<open>MissingSectionHeaderError\<close>
  with the text below.
\<close>

definition other_section_world :: world where
  "other_section_world =
     example_world\<lparr>ini_file := \<lambda>p. Parsed [(''SMTP'', [(''USERNAME'', ''u@x.com'')])]\<rparr>"

definition headerless_error :: exn where
  "headerless_error =
     ConfigParserError
       (''File contains no section headers.'' @ [CHR 0x0A] @
        ''file: '' @ [squote] @ ''config.ini'' @ [squote] @ '', line: 1'' @ [CHR 0x0A] @
        [squote] @ ''USERNAME = u@x.com'' @ [CHR 0x5C] @ ''n'' @ [squote])"

definition headerless_world :: world where
  "headerless_world = example_world\<lparr>ini_file := \<lambda>p. Malformed headerless_error\<rparr>"

section \<open>Sequencing, handlers\<close>

lemma and_then_Inl: "and_then (Inl e, tr) f = (Inl e, tr)"
  by (simp add: and_then_def)

lemma and_then_Inr: "and_then (Inr x, tr) f = (fst (f x), tr @ snd (f x))"
  by (simp add: and_then_def split: prod.splits)

lemma and_then_lift_Inl: "and_then (lift (Inl e)) f = (Inl e, [])"
  by (simp add: lift_def and_then_Inl)

lemma and_then_lift_Inr: "and_then (lift (Inr x)) f = f x"
  by (simp add: lift_def and_then_Inr)

lemma and_then_emit: "and_then (emit ev) f = (fst (f ()), ev # snd (f ()))"
  by (simp add: emit_def and_then_Inr)

lemma and_then_op_None: "and_then (smtp_op ev None) f = (fst (f ()), ev # snd (f ()))"
  by (simp add: smtp_op_def and_then_Inr)

lemma and_then_op_Some: "and_then (smtp_op ev (Some e)) f = (Inl e, [ev])"
  by (simp add: smtp_op_def and_then_Inl)

lemma send_handler_returns: "\<exists>m. send_handler e = (Inr (), [Log ERROR m])"
  by (cases e) (simp_all add: logging_error_def emit_def)

lemma main_handler_returns: "\<exists>m. main_handler e = (Inr (), [Log ERROR m])"
  by (cases e) (simp_all add: logging_error_def emit_def)

lemma try_except_Inl: "try_except (Inl e, tr) h = (fst (h e), tr @ snd (h e))"
  by (simp add: try_except_def split: prod.splits)

lemma try_except_Inr: "try_except (Inr x, tr) h = (Inr x, tr)"
  by (simp add: try_except_def)

lemma try_except_unit:
  assumes "\<And>e. fst (h e) = Inr ()"
  shows "fst (try_except m h) = Inr ()"
proof (cases m)
  case (Pair r tr)
  show ?thesis
  proof (cases r)
    case (Inl e)
    with Pair assms [of e] show ?thesis
      by (simp add: try_except_Inl)
  next
    case (Inr u)
    with Pair show ?thesis
      by (simp add: try_except_Inr)
  qed
qed

lemma send_email_dry:
  "send_email env config message sender receiver cc bcc True =
     (Inr (), [Log INFO (''Dry run enabled. Email would be sent to: '' @ receiver)])"
  by (simp add: send_email_def logging_info_def emit_def)

lemma send_email_returns: "fst (send_email env config message sender receiver cc bcc dry_run) = Inr ()"
proof (cases dry_run)
  case True
  then show ?thesis by (simp add: send_email_dry)
next
  case False
  have "fst (send_handler e) = Inr ()" for e
    using send_handler_returns [of e] by auto
  then have "fst (try_except (send_block env config message sender receiver cc bcc) send_handler) = Inr ()"
    by (rule try_except_unit)
  with False show ?thesis by (simp add: send_email_def)
qed

lemma main_returns: "fst (main w env a) = Inr ()"
proof -
  have "fst (main_handler e) = Inr ()" for e
    using main_handler_returns [of e] by auto
  then show ?thesis
    unfolding main_def by (rule try_except_unit)
qed

lemma load_config_missing:
  "\<not> path_exists w path \<Longrightarrow>
   load_config w path =
     (Inl (FileNotFoundError (''Configuration file not found: '' @ path)),
      [Log ERROR (''Configuration file not found: '' @ path)])"
  by (simp add: load_config_def logging_error_def and_then_emit raise_def)

lemma main_missing:
  assumes "\<not> path_exists w CONFIG_FILE"
  shows "main w env a =
     (Inr (), [Log ERROR ''Configuration file not found: config.ini'',
               Log ERROR ''File or permission error: Configuration file not found: config.ini''])"
  using assms
  by (simp add: main_def load_config_missing and_then_Inl try_except_def logging_error_def
        emit_def CONFIG_FILE_def)

section \<open>The message that create\_email builds\<close>

lemma read_parts_Nil: "read_parts w [] = []"
  by (simp add: read_parts_def map_filter_simps)

lemma failure_logs_Nil: "failure_logs w [] = []"
  by (simp add: failure_logs_def map_filter_simps)

lemma read_parts_Cons:
  "read_parts w (p # ps) =
     (case read_bytes w p of Inl e \<Rightarrow> read_parts w ps | Inr dat \<Rightarrow> file_part dat p # read_parts w ps)"
  by (simp add: read_parts_def map_filter_simps split: sum.splits)

lemma failure_logs_Cons:
  "failure_logs w (p # ps) =
     (case read_bytes w p of
        Inl e \<Rightarrow> Log ERROR (''Failed to attach '' @ p @ '': '' @ exn_str e) # failure_logs w ps
      | Inr dat \<Rightarrow> failure_logs w ps)"
  by (simp add: failure_logs_def map_filter_simps split: sum.splits)

lemma read_parts_append: "read_parts w (ps @ qs) = read_parts w ps @ read_parts w qs"
  by (induction ps) (simp_all add: read_parts_Nil read_parts_Cons split: sum.splits)

lemma attach_files_eq:
  "attach_files w paths message =
     (Inr (message\<lparr>parts := parts message @ read_parts w paths\<rparr>), failure_logs w paths)"
proof (induction paths arbitrary: message)
  case Nil
  show ?case by (simp add: ok_def read_parts_Nil failure_logs_Nil)
next
  case (Cons p ps)
  show ?case
  proof (cases "read_bytes w p")
    case (Inl e)
    then show ?thesis
      by (simp add: Cons.IH logging_error_def and_then_emit read_parts_Cons failure_logs_Cons)
  next
    case (Inr dat)
    then show ?thesis
      by (simp add: Cons.IH attach_def read_parts_Cons failure_logs_Cons)
  qed
qed

lemma formataddr_Sender:
  "formataddr (''Sender'', sender) =
     (if is_ascii sender then Inr (''Sender <'' @ sender @ ''>'')
      else Inl (UnicodeEncodeError ''ascii codec cannot encode address''))"
  by (simp add: formataddr_def specials_def escape_name_def dquote_def)

lemma create_email_eq:
  "create_email w sender receiver subject body attachments cc bcc html_content =
     (if is_ascii sender then
        (Inr \<lparr>headers =
                [(''Content-Type'', ''multipart/mixed''), (''MIME-Version'', ''1.0''),
                 (''From'', ''Sender <'' @ sender @ ''>''), (''To'', receiver)] @
                (if cc = [] then [] else [(''Cc'', join '', '' cc)]) @
                [(''Subject'', subject)],
              parts =
                (if html_content \<noteq> [] then MIMEText html_content ''html''
                 else MIMEText body ''plain'') # read_parts w attachments\<rparr>,
         failure_logs w attachments)
      else (Inl (UnicodeEncodeError ''ascii codec cannot encode address''), []))"
  by (simp add: create_email_def formataddr_Sender and_then_lift_Inl and_then_lift_Inr
        attach_files_eq MIMEMultipart_def set_header_def attach_def Let_def)

section \<open>Base names\<close>







section \<open>The SMTP session\<close>

lemma sendmail_rcpts_append: "sendmail_rcpts (xs @ ys) = sendmail_rcpts xs @ sendmail_rcpts ys"
  by (induction xs rule: sendmail_rcpts.induct) simp_all

lemma with_exit_trace: "snd (with_exit env blk) = snd blk @ [Quit]"
  by (simp add: with_exit_def split: prod.splits option.splits)

lemma send_session_rcpts:
  "sendmail_rcpts (snd (send_session env config message sender receiver cc bcc)) = [] \<or>
   sendmail_rcpts (snd (send_session env config message sender receiver cc bcc)) = [receiver # cc @ bcc]"
proof (cases "smtp_starttls env")
  case (Some e)
  then show ?thesis by (simp add: send_session_def and_then_op_Some)
next
  case None
  note tls = this
  show ?thesis
  proof (cases "dict_getitem config ''USERNAME''")
    case (Inl e)
    with tls show ?thesis by (simp add: send_session_def and_then_op_None and_then_lift_Inl)
  next
    case (Inr username)
    note u = this
    show ?thesis
    proof (cases "dict_getitem config ''PASSWORD''")
      case (Inl e)
      with tls u show ?thesis
        by (simp add: send_session_def and_then_op_None and_then_lift_Inl and_then_lift_Inr)
    next
      case (Inr password)
      note p = this
      show ?thesis
      proof (cases "smtp_login env username password")
        case (Some e)
        with tls u p show ?thesis
          by (simp add: send_session_def and_then_op_None and_then_op_Some and_then_lift_Inr)
      next
        case None
        note l = this
        show ?thesis
        proof (cases "msg_as_string env message")
          case (Inl e)
          with tls u p l show ?thesis
            by (simp add: send_session_def and_then_op_None and_then_lift_Inl and_then_lift_Inr)
        next
          case (Inr wire)
          with tls u p l show ?thesis
            by (cases "smtp_sendmail env sender (receiver # cc @ bcc) wire")
               (simp_all add: send_session_def and_then_op_None and_then_op_Some
                  and_then_lift_Inr logging_info_def emit_def Let_def)
        qed
      qed
    qed
  qed
qed

lemma send_session_reaches_send:
  assumes "smtp_starttls env = None"
    and "dict_getitem config ''USERNAME'' = Inr username"
    and "dict_getitem config ''PASSWORD'' = Inr password"
    and "smtp_login env username password = None"
    and "msg_as_string env message = Inr txt"
  shows "snd (send_session env config message sender receiver cc bcc) =
           [Starttls, Login username password, Sendmail sender (receiver # cc @ bcc) txt] @
           (case smtp_sendmail env sender (receiver # cc @ bcc) txt of
              None \<Rightarrow> [Log INFO (''Email sent successfully to '' @ join '', '' (receiver # cc @ bcc))]
            | Some e \<Rightarrow> [])"
  using assms
  by (cases "smtp_sendmail env sender (receiver # cc @ bcc) txt")
     (simp_all add: send_session_def and_then_op_None and_then_op_Some
        and_then_lift_Inr logging_info_def emit_def Let_def)

lemma send_block_trace:
  "snd (send_block env config message sender receiver cc bcc) =
     (case dict_getitem config ''SMTP_SERVER'' of Inl e \<Rightarrow> [] | Inr host \<Rightarrow>
      case dict_getitem config ''SMTP_PORT'' of Inl e \<Rightarrow> [] | Inr port_str \<Rightarrow>
      case int_of env port_str of Inl e \<Rightarrow> [] | Inr port \<Rightarrow>
      case smtp_connect env host port of Some e \<Rightarrow> [Connect host port]
      | None \<Rightarrow> Connect host port #
                 snd (send_session env config message sender receiver cc bcc) @ [Quit])"
  by (simp add: send_block_def and_then_lift_Inl and_then_lift_Inr and_then_op_None
        and_then_op_Some with_exit_trace split: sum.splits option.splits)

lemma send_block_rcpts:
  "sendmail_rcpts (snd (send_block env config message sender receiver cc bcc)) =
     sendmail_rcpts (snd (send_session env config message sender receiver cc bcc)) \<or>
   sendmail_rcpts (snd (send_block env config message sender receiver cc bcc)) = []"
  by (simp add: send_block_trace sendmail_rcpts_append split: sum.splits option.splits)

lemma try_except_trace_rcpts:
  "sendmail_rcpts (snd (try_except m send_handler)) = sendmail_rcpts (snd m)"
proof (cases m)
  case (Pair r tr)
  show ?thesis
  proof (cases r)
    case (Inl e)
    obtain msg where "send_handler e = (Inr (), [Log ERROR msg])"
      using send_handler_returns by blast
    with Pair Inl show ?thesis by (simp add: try_except_Inl sendmail_rcpts_append)
  next
    case (Inr u)
    with Pair show ?thesis by (simp add: try_except_Inr)
  qed
qed

lemma send_email_rcpts:
  "sendmail_rcpts (snd (send_email env config message sender receiver cc bcc dry_run)) = [] \<or>
   sendmail_rcpts (snd (send_email env config message sender receiver cc bcc dry_run)) =
     [receiver # cc @ bcc]"
proof (cases dry_run)
  case True
  then show ?thesis by (simp add: send_email_dry)
next
  case False
  then have "sendmail_rcpts (snd (send_email env config message sender receiver cc bcc dry_run)) =
      sendmail_rcpts (snd (send_block env config message sender receiver cc bcc))"
    by (simp add: send_email_def try_except_trace_rcpts)
  with send_block_rcpts [of env config message sender receiver cc bcc]
    send_session_rcpts [of env config message sender receiver cc bcc]
  show ?thesis by auto
qed

lemma send_email_reaches_send:
  assumes "dict_getitem config ''SMTP_SERVER'' = Inr host"
    and "dict_getitem config ''SMTP_PORT'' = Inr port_str"
    and "int_of env port_str = Inr port"
    and "smtp_connect env host port = None"
    and "smtp_starttls env = None"
    and "dict_getitem config ''USERNAME'' = Inr username"
    and "dict_getitem config ''PASSWORD'' = Inr password"
    and "smtp_login env username password = None"
    and "msg_as_string env message = Inr txt"
  shows "sendmail_rcpts (snd (send_email env config message sender receiver cc bcc False)) =
           [receiver # cc @ bcc]"
proof -
  have "sendmail_rcpts (snd (send_session env config message sender receiver cc bcc)) =
          [receiver # cc @ bcc]"
    using send_session_reaches_send [OF assms(5-9), of sender receiver cc bcc]
    by (simp add: sendmail_rcpts_append split: option.splits)
  then have "sendmail_rcpts (snd (send_block env config message sender receiver cc bcc)) =
          [receiver # cc @ bcc]"
    using assms(1-4) by (simp add: send_block_trace sendmail_rcpts_append)
  then show ?thesis
    by (simp add: send_email_def try_except_trace_rcpts)
qed

section \<open>The configuration as loaded\<close>

lemma lower_char_idem: "lower_char (lower_char c) = lower_char c"
  by (simp add: lower_char_def Let_def)

lemma optionxform_idem: "optionxform (optionxform k) = optionxform k"
  by (simp add: optionxform_def lower_char_idem)

lemma store_options_keys: "(k, v) \<in> set (store_options opts) \<Longrightarrow> optionxform k = k"
  by (auto simp: store_options_def optionxform_idem)

lemma read_doc_no_section:
  "s \<notin> fst ` set doc \<Longrightarrow> map_of (sections (read_doc doc)) s = None"
  by (force simp: read_doc_def map_of_eq_None_iff)

lemma load_config_no_section:
  assumes "path_exists w path" and "ini_file w path = Parsed doc" and "''EMAIL'' \<notin> fst ` set doc"
  shows "load_config w path = (Inl (KeyError ''EMAIL''), [])"
  using assms
  by (simp add: load_config_def config_read_def and_then_Inr lift_def parser_getitem_def
        read_doc_no_section)

lemma main_no_section:
  assumes "path_exists w CONFIG_FILE" and "ini_file w CONFIG_FILE = Parsed doc"
    and "''EMAIL'' \<notin> fst ` set doc"
  shows "main w env a =
     (Inr (), [Log ERROR (''Unexpected error occurred: '' @ [squote] @ ''EMAIL'' @ [squote])])"
  by (simp add: main_def load_config_no_section [OF assms] and_then_Inl try_except_Inl
        logging_error_def emit_def)

lemma load_config_unopenable:
  assumes "path_exists w path" and "ini_file w path = Unopenable"
  shows "load_config w path = (Inl (KeyError ''EMAIL''), [])"
  using assms
  by (simp add: load_config_def config_read_def and_then_Inr lift_def parser_getitem_def)

lemma load_config_malformed:
  assumes "path_exists w path" and "ini_file w path = Malformed e"
  shows "load_config w path = (Inl e, [])"
  using assms
  by (simp add: load_config_def config_read_def and_then_Inl lift_def)

lemma main_load_failure:
  assumes "load_config w CONFIG_FILE = (Inl e, tr)"
  shows "main w env a = (Inr (), tr @ snd (main_handler e))"
proof -
  obtain msg where "main_handler e = (Inr (), [Log ERROR msg])"
    using main_handler_returns by blast
  then show ?thesis
    by (simp add: main_def assms and_then_Inl try_except_Inl)
qed

lemma stored_store_options: "stored (store_options opts)"
  by (simp add: stored_def store_options_def list_all_iff optionxform_idem split_beta)

lemma stored_read_doc_defaults: "stored (defaults (read_doc doc))"
  by (induction doc) (auto simp: read_doc_def stored_def store_options_def optionxform_idem split_beta list_all_iff)

lemma stored_read_doc_section:
  "map_of (sections (read_doc doc)) s = Some opts \<Longrightarrow> stored opts"
  by (auto simp: read_doc_def stored_store_options dest!: map_of_SomeD)

lemma parser_getitem_stored:
  assumes "stored (defaults p)" and "\<And>s opts. map_of (sections p) s = Some opts \<Longrightarrow> stored opts"
    and "parser_getitem p s = Inr proxy"
  shows "stored (own_options proxy) \<and> stored (default_options proxy)"
  using assms
  by (auto simp: parser_getitem_def stored_def split: if_splits option.splits)

lemma load_config_stored:
  assumes "load_config w path = (Inr proxy, tr)"
  shows "stored (own_options proxy) \<and> stored (default_options proxy)"
proof (cases "ini_file w path")
  case Unopenable
  with assms have "parser_getitem \<lparr>defaults = [], sections = []\<rparr> ''EMAIL'' = Inr proxy"
    by (simp add: load_config_def config_read_def and_then_Inr lift_def logging_error_def
          emit_def raise_def split: if_splits)
  then show ?thesis by (simp add: parser_getitem_def)
next
  case (Malformed e)
  with assms show ?thesis
    by (simp add: load_config_def config_read_def and_then_Inl lift_def logging_error_def
          emit_def and_then_Inr raise_def split: if_splits)
next
  case (Parsed doc)
  with assms have "parser_getitem (read_doc doc) ''EMAIL'' = Inr proxy"
    by (simp add: load_config_def config_read_def and_then_Inr lift_def logging_error_def
          emit_def raise_def split: if_splits)
  then show ?thesis
    using stored_read_doc_defaults [of doc] stored_read_doc_section [of doc]
    by (auto simp: parser_getitem_def split: option.splits)
qed

lemma load_config_trace:
  "filter is_network (snd (load_config w path)) = []"
proof (cases "path_exists w path")
  case False
  then show ?thesis by (simp add: load_config_missing)
next
  case True
  then show ?thesis
    by (cases "config_read w path")
       (simp_all add: load_config_def lift_def and_then_Inl and_then_Inr)
qed

lemma dict_items_keys: "dict_items w proxy ks = Inr d \<Longrightarrow> map fst d = ks"
  by (induction ks arbitrary: d) (auto split: sum.splits)

lemma dict_of_proxy_keys:
  assumes "stored (own_options proxy)" and "stored (default_options proxy)"
    and "dict_of_proxy w proxy = Inr d" and "optionxform k \<noteq> k"
  shows "map_of d k = None"
proof -
  from assms(3) have "map fst d = proxy_keys proxy"
    by (simp add: dict_of_proxy_def dict_items_keys)
  moreover have "k \<notin> set (proxy_keys proxy)"
    using assms(1,2,4) by (auto simp: proxy_keys_def stored_def list_all_iff)
  ultimately have "k \<notin> fst ` set d"
    by (metis set_map)
  then show ?thesis by (simp add: map_of_eq_None_iff)
qed

lemma SMTP_SERVER_not_stored: "optionxform ''SMTP_SERVER'' \<noteq> ''SMTP_SERVER''"
  by (simp add: optionxform_def lower_char_def char_of_def)

section \<open>A run of main stays off the network\<close>

lemma quiet_and_then:
  assumes "filter is_network (snd m) = []"
    and "\<And>x. fst m = Inr x \<Longrightarrow> filter is_network (snd (f x)) = []"
  shows "filter is_network (snd (and_then m f)) = []"
proof (cases m)
  case (Pair r tr)
  show ?thesis
  proof (cases r)
    case (Inl e)
    with Pair assms(1) show ?thesis by (simp add: and_then_Inl)
  next
    case (Inr x)
    with Pair assms(1) assms(2) [of x] show ?thesis by (simp add: and_then_Inr)
  qed
qed

lemma quiet_try_main:
  assumes "filter is_network (snd m) = []"
  shows "filter is_network (snd (try_except m main_handler)) = []"
proof (cases m)
  case (Pair r tr)
  show ?thesis
  proof (cases r)
    case (Inl e)
    obtain msg where "main_handler e = (Inr (), [Log ERROR msg])"
      using main_handler_returns by blast
    with Pair Inl assms show ?thesis by (simp add: try_except_Inl)
  next
    case (Inr x)
    with Pair assms show ?thesis by (simp add: try_except_Inr)
  qed
qed

lemma quiet_failure_logs: "filter is_network (failure_logs w paths) = []"
  by (induction paths) (simp_all add: failure_logs_Nil failure_logs_Cons split: sum.splits)

lemma quiet_create_email:
  "filter is_network (snd (create_email w sender receiver subject body attachments cc bcc html_content)) = []"
  by (simp add: create_email_eq quiet_failure_logs)

lemma send_email_no_host:
  assumes "map_of config ''SMTP_SERVER'' = None"
  shows "send_email env config message sender receiver cc bcc False =
           (Inr (), [Log ERROR (''Failed to send email: '' @ [squote] @ ''SMTP_SERVER'' @ [squote])])"
  using assms
  by (simp add: send_email_def send_block_def dict_getitem_def lift_def and_then_Inl
        try_except_Inl logging_error_def emit_def)

lemma quiet_send_email_no_host:
  assumes "map_of config ''SMTP_SERVER'' = None"
  shows "filter is_network (snd (send_email env config message sender receiver cc bcc dry_run)) = []"
  using assms send_email_no_host [OF assms, of env message sender receiver cc bcc]
  by (cases dry_run) (simp_all add: send_email_dry)

lemma main_quiet: "filter is_network (snd (main w env a)) = []"
  unfolding main_def
proof (rule quiet_try_main, rule quiet_and_then)
  show "filter is_network (snd (load_config w CONFIG_FILE)) = []"
    by (rule load_config_trace)
next
  fix config
  assume "fst (load_config w CONFIG_FILE) = Inr config"
  then have "load_config w CONFIG_FILE = (Inr config, snd (load_config w CONFIG_FILE))"
    by (metis prod.collapse)
  then have st: "stored (own_options config)" "stored (default_options config)"
    using load_config_stored by blast+
  have no_host: "map_of d ''SMTP_SERVER'' = None" if "dict_of_proxy w config = Inr d" for d
    using st that SMTP_SERVER_not_stored by (rule dict_of_proxy_keys)
  show "filter is_network
          (snd (and_then (lift (proxy_getitem w config ''USERNAME'')) (\<lambda>sender.
        and_then (emit (Call ''create_email'')) (\<lambda>_.
        and_then (create_email w sender (arg_receiver a) (arg_subject a) (arg_body a)
                    (arg_attachments a) (arg_cc a) (arg_bcc a) (html_or_empty (arg_html a)))
          (\<lambda>message.
        and_then (lift (dict_of_proxy w config)) (\<lambda>config_dict.
        and_then (lift (proxy_getitem w config ''USERNAME'')) (\<lambda>sender'.
        and_then (emit (Call ''send_email'')) (\<lambda>_.
        send_email env config_dict message sender' (arg_receiver a) (arg_cc a) (arg_bcc a)
          (arg_dry_run a))))))))) = []"
    by (intro quiet_and_then quiet_create_email quiet_send_email_no_host no_host)
       (simp_all add: lift_def emit_def)
qed

section \<open>The claims\<close>

lemma read_parts_application:
  "list_all (\<lambda>q. maintype q = ''application'' \<and> subtype q = ''octet-stream'') (read_parts w paths)"
  by (induction paths)
     (simp_all add: read_parts_Nil read_parts_Cons file_part_def set_part_header_def
        MIMEApplication_def split: sum.splits)

lemma read_parts_no_text: "filter (\<lambda>q. maintype q = ''text'') (read_parts w paths) = []"
  by (induction paths)
     (simp_all add: read_parts_Nil read_parts_Cons file_part_def set_part_header_def
        MIMEApplication_def split: sum.splits)



lemma create_email_Inr:
  assumes "create_email w sender receiver subject body attachments cc bcc html_content = (Inr m, tr)"
  shows "m = \<lparr>headers =
                [(''Content-Type'', ''multipart/mixed''), (''MIME-Version'', ''1.0''),
                 (''From'', ''Sender <'' @ sender @ ''>''), (''To'', receiver)] @
                (if cc = [] then [] else [(''Cc'', join '', '' cc)]) @
                [(''Subject'', subject)],
              parts =
                (if html_content \<noteq> [] then MIMEText html_content ''html''
                 else MIMEText body ''plain'') # read_parts w attachments\<rparr>"
    and "tr = failure_logs w attachments" and "is_ascii sender"
  using assms by (simp_all add: create_email_eq split: if_splits)

lemma subset_rcpts: "set bcc \<subseteq> set (receiver # cc @ bcc)"
  by auto

text \<open>
  Claim C1. The built message has a \<^verbatim>\<open>Cc\<close> header exactly when the CC list is not
  empty, and its value is then the addresses joined by comma and space. The header list
  is made of the sender, the receiver, the CC list and the subject only: there is no
  \<^verbatim>\<open>Bcc\<close> header, and the message is the same whatever the BCC list is. Every recipient
  list that \<^verbatim>\<open>send_email\<close> hands to \<^verbatim>\<open>sendmail\<close> holds every BCC address.
\<close>

theorem cc_header_and_bcc_envelope:
  assumes "create_email w sender receiver subject body attachments cc bcc html_content = (Inr m, tr)"
  shows "((''Cc'' \<in> fst ` set (headers m)) = (cc \<noteq> [])) \<and>
         map_of (headers m) ''Cc'' = (if cc = [] then None else Some (join '', '' cc)) \<and>
         headers m =
           [(''Content-Type'', ''multipart/mixed''), (''MIME-Version'', ''1.0''),
            (''From'', ''Sender <'' @ sender @ ''>''), (''To'', receiver)] @
           (if cc = [] then [] else [(''Cc'', join '', '' cc)]) @
           [(''Subject'', subject)] \<and>
         ''Bcc'' \<notin> fst ` set (headers m) \<and>
         create_email w sender receiver subject body attachments cc bcc' html_content = (Inr m, tr) \<and>
         list_all (\<lambda>rs. set bcc \<subseteq> set rs)
           (sendmail_rcpts (snd (send_email env config m sender receiver cc bcc dry_run)))"
proof -
  note m = create_email_Inr(1) [OF assms]
  have hd: "headers m =
           [(''Content-Type'', ''multipart/mixed''), (''MIME-Version'', ''1.0''),
            (''From'', ''Sender <'' @ sender @ ''>''), (''To'', receiver)] @
           (if cc = [] then [] else [(''Cc'', join '', '' cc)]) @
           [(''Subject'', subject)]"
    by (subst m) simp
  have a: "(''Cc'' \<in> fst ` set (headers m)) = (cc \<noteq> [])"
    by (simp add: hd)
  have b: "map_of (headers m) ''Cc'' = (if cc = [] then None else Some (join '', '' cc))"
    by (simp add: hd)
  have c: "''Bcc'' \<notin> fst ` set (headers m)"
    by (simp add: hd)
  have d: "create_email w sender receiver subject body attachments cc bcc' html_content = (Inr m, tr)"
    using assms by (simp add: create_email_eq)
  have e: "list_all (\<lambda>rs. set bcc \<subseteq> set rs)
           (sendmail_rcpts (snd (send_email env config m sender receiver cc bcc dry_run)))"
    using send_email_rcpts [of env config m sender receiver cc bcc dry_run] subset_rcpts [of bcc receiver cc]
    by (elim disjE) simp_all
  from a b hd c d e show ?thesis by blast
qed

theorem cc_header_and_bcc_envelope_witness:
  "create_email example_world ''u@x.com'' ''a@x.com'' ''Hi'' ''Hello'' [] [''b@x.com''] [''c@x.com''] [] =
     (Inr example_message, []) \<and>
   map_of (headers example_message) ''Cc'' = Some ''b@x.com'' \<and>
   ''Bcc'' \<notin> fst ` set (headers example_message) \<and>
   sendmail_rcpts (snd (send_email example_env example_config example_message ''u@x.com'' ''a@x.com''
      [''b@x.com''] [''c@x.com''] False)) = [[''a@x.com'', ''b@x.com'', ''c@x.com'']] \<and>
   list_all (\<lambda>rs. set [''c@x.com''] \<subseteq> set rs)
     (sendmail_rcpts (snd (send_email example_env example_config example_message ''u@x.com'' ''a@x.com''
        [''b@x.com''] [''c@x.com''] False)))"
proof -
  have h: "create_email example_world ''u@x.com'' ''a@x.com'' ''Hi'' ''Hello'' [] [''b@x.com'']
             [''c@x.com''] [] = (Inr example_message, [])"
    by (simp add: create_email_eq is_ascii_def example_message_def read_parts_Nil failure_logs_Nil)
  have s: "sendmail_rcpts (snd (send_email example_env example_config example_message ''u@x.com''
      ''a@x.com'' [''b@x.com''] [''c@x.com''] False)) = [[''a@x.com'', ''b@x.com'', ''c@x.com'']]"
    using send_email_reaches_send [of example_config "''smtp.x.com''" "''587''" example_env 587
        "''u@x.com''" "''pw''" example_message "''wire''" "''u@x.com''" "''a@x.com''"
        "[''b@x.com'']" "[''c@x.com'']"]
    by (simp add: example_config_def example_env_def dict_getitem_def)
  from cc_header_and_bcc_envelope [OF h, of "[]" example_env example_config False] h s
  show ?thesis by simp
qed

text \<open>
  Claim C5. With the dry-run flag set, \<^verbatim>\<open>send_email\<close> returns without raising, whatever
  the configuration dictionary and the SMTP side are; all it does is log the intended
  receiver, and no call on the SMTP client is made: the \<^verbatim>\<open>try\<close> block is not entered.
\<close>

theorem dry_run_no_network:
  "send_email env config message sender receiver cc bcc True =
     (Inr (), [Log INFO (''Dry run enabled. Email would be sent to: '' @ receiver)]) \<and>
   filter is_network (snd (send_email env config message sender receiver cc bcc True)) = []"
  by (simp add: send_email_dry)

text \<open>
  Claim C6. \<^verbatim>\<open>send_email\<close> never raises. When the \<^verbatim>\<open>try\<close> block of a send that is not
  a dry run ends in an exception, the events of the block are followed by one error
  record: the fixed text for a connection failure, a disconnection and an authentication
  failure, and the exception's own text otherwise. A run of \<^verbatim>\<open>main\<close> returns normally.
\<close>

theorem send_errors_caught:
  "fst (send_email env config message sender receiver cc bcc dry_run) = Inr () \<and>
   (fst (send_block env config message sender receiver cc bcc) = Inl e \<longrightarrow>
      (\<exists>msg. snd (send_email env config message sender receiver cc bcc False) =
         snd (send_block env config message sender receiver cc bcc) @ [Log ERROR msg])) \<and>
   (fst (send_block env config message sender receiver cc bcc) = Inl (SMTPConnectError t) \<longrightarrow>
      snd (send_email env config message sender receiver cc bcc False) =
        snd (send_block env config message sender receiver cc bcc) @
        [Log ERROR ''SMTP server connection failed.'']) \<and>
   (fst (send_block env config message sender receiver cc bcc) = Inl (SMTPServerDisconnected t) \<longrightarrow>
      snd (send_email env config message sender receiver cc bcc False) =
        snd (send_block env config message sender receiver cc bcc) @
        [Log ERROR ''Server disconnected unexpectedly.'']) \<and>
   (fst (send_block env config message sender receiver cc bcc) = Inl (SMTPAuthenticationError t) \<longrightarrow>
      snd (send_email env config message sender receiver cc bcc False) =
        snd (send_block env config message sender receiver cc bcc) @
        [Log ERROR ''Authentication failed.'']) \<and>
   (fst (send_block env config message sender receiver cc bcc) = Inl (OtherException t) \<longrightarrow>
      snd (send_email env config message sender receiver cc bcc False) =
        snd (send_block env config message sender receiver cc bcc) @
        [Log ERROR (''Failed to send email: '' @ t)]) \<and>
   fst (main w env a) = Inr ()"
proof -
  let ?b = "send_block env config message sender receiver cc bcc"
  have tr: "snd (send_email env config message sender receiver cc bcc False) =
              snd ?b @ snd (send_handler x)" if "fst ?b = Inl x" for x
  proof -
    from that have "?b = (Inl x, snd ?b)" by (metis prod.collapse)
    then have "try_except ?b send_handler = (fst (send_handler x), snd ?b @ snd (send_handler x))"
      by (metis try_except_Inl)
    then show ?thesis by (simp add: send_email_def)
  qed
  have "\<exists>msg. snd (send_email env config message sender receiver cc bcc False) =
          snd ?b @ [Log ERROR msg]" if "fst ?b = Inl e"
  proof -
    obtain msg where "send_handler e = (Inr (), [Log ERROR msg])"
      using send_handler_returns by blast
    with tr [OF that] show ?thesis by simp
  qed
  then show ?thesis
    using tr [of "SMTPConnectError t"] tr [of "SMTPServerDisconnected t"]
      tr [of "SMTPAuthenticationError t"] tr [of "OtherException t"]
    by (simp add: send_email_returns main_returns logging_error_def emit_def)
qed

theorem send_errors_caught_witness:
  "fst (send_block (example_env\<lparr>smtp_connect := \<lambda>h p. Some (SMTPConnectError ''refused'')\<rparr>)
          example_config example_message ''u@x.com'' ''a@x.com'' [''b@x.com''] [''c@x.com'']) =
     Inl (SMTPConnectError ''refused'') \<and>
   send_email (example_env\<lparr>smtp_connect := \<lambda>h p. Some (SMTPConnectError ''refused'')\<rparr>)
     example_config example_message ''u@x.com'' ''a@x.com'' [''b@x.com''] [''c@x.com''] False =
     (Inr (), [Connect ''smtp.x.com'' 587, Log ERROR ''SMTP server connection failed.''])"
proof -
  let ?env = "example_env\<lparr>smtp_connect := \<lambda>h p. Some (SMTPConnectError ''refused'')\<rparr>"
  let ?b = "send_block ?env example_config example_message ''u@x.com'' ''a@x.com''
              [''b@x.com''] [''c@x.com'']"
  have b: "?b = (Inl (SMTPConnectError ''refused''), [Connect ''smtp.x.com'' 587])"
    by (simp add: send_block_def example_env_def example_config_def dict_getitem_def
          and_then_lift_Inr and_then_op_Some)
  then have h: "fst ?b = Inl (SMTPConnectError ''refused'')" by simp
  from send_errors_caught [of ?env example_config example_message "''u@x.com''" "''a@x.com''"
      "[''b@x.com'']" "[''c@x.com'']" False "SMTPConnectError ''refused''" "''refused''"]
  have "fst (send_email ?env example_config example_message ''u@x.com'' ''a@x.com''
          [''b@x.com''] [''c@x.com''] False) = Inr ()"
    and "snd (send_email ?env example_config example_message ''u@x.com'' ''a@x.com''
          [''b@x.com''] [''c@x.com''] False) = snd ?b @ [Log ERROR ''SMTP server connection failed.'']"
    using h by blast+
  with b show ?thesis by (simp add: prod_eq_iff)
qed

text \<open>
  Claim C7. When the configuration file does not exist, \<^verbatim>\<open>load_config\<close> logs that and
  raises \<^verbatim>\<open>FileNotFoundError\<close>; \<^verbatim>\<open>main\<close> catches it in its first handler, logs it and
  returns, having called neither \<^verbatim>\<open>create_email\<close> nor \<^verbatim>\<open>send_email\<close>.
\<close>

theorem missing_config_stops_run:
  assumes "\<not> path_exists w CONFIG_FILE"
  shows "load_config w CONFIG_FILE =
           (Inl (FileNotFoundError ''Configuration file not found: config.ini''),
            [Log ERROR ''Configuration file not found: config.ini'']) \<and>
         main w env a =
           (Inr (), [Log ERROR ''Configuration file not found: config.ini'',
                     Log ERROR ''File or permission error: Configuration file not found: config.ini'']) \<and>
         Call ''create_email'' \<notin> set (snd (main w env a)) \<and>
         Call ''send_email'' \<notin> set (snd (main w env a))"
  using load_config_missing [OF assms] main_missing [OF assms, of env a]
  by (simp add: CONFIG_FILE_def)

theorem missing_config_stops_run_witness:
  "\<not> path_exists (example_world\<lparr>path_exists := \<lambda>p. False\<rparr>) CONFIG_FILE \<and>
   main (example_world\<lparr>path_exists := \<lambda>p. False\<rparr>) example_env example_args =
     (Inr (), [Log ERROR ''Configuration file not found: config.ini'',
               Log ERROR ''File or permission error: Configuration file not found: config.ini''])"
proof -
  have h: "\<not> path_exists (example_world\<lparr>path_exists := \<lambda>p. False\<rparr>) CONFIG_FILE"
    by simp
  from missing_config_stops_run [OF h, of example_env example_args] h show ?thesis
    by blast
qed

text \<open>
  Claim C10 says that a configuration file that exists and has no \<^verbatim>\<open>EMAIL\<close> section
  makes \<^verbatim>\<open>load_config\<close> raise a key error. The file that is the line
  \<^verbatim>\<open>USERNAME = u@x.com\<close>, with no section header, exists and has no \<^verbatim>\<open>EMAIL\<close> section, and
  \<^verbatim>\<open>config.read\<close> raises \<^verbatim>\<open>MissingSectionHeaderError\<close> on it before the section is looked
  up: \<^verbatim>\<open>load_config\<close> raises that error, not \<^verbatim>\<open>KeyError\<close>.
\<close>

theorem headerless_file_counterexample:
  "path_exists headerless_world CONFIG_FILE \<and>
   ini_file headerless_world CONFIG_FILE = Malformed headerless_error \<and>
   load_config headerless_world CONFIG_FILE = (Inl headerless_error, []) \<and>
   fst (load_config headerless_world CONFIG_FILE) \<noteq> Inl (KeyError ''EMAIL'')"
proof -
  have ex: "path_exists headerless_world CONFIG_FILE"
    by (simp add: headerless_world_def example_world_def CONFIG_FILE_def)
  have mal: "ini_file headerless_world CONFIG_FILE = Malformed headerless_error"
    by (simp add: headerless_world_def)
  have "load_config headerless_world CONFIG_FILE = (Inl headerless_error, [])"
    using ex mal by (rule load_config_malformed)
  with ex mal show ?thesis
    by (simp add: headerless_error_def)
qed

text \<open>
  Claim C10, amended. Let the configuration file exist. When the parser reads it (or
  cannot open it, which it passes over) and it has no \<^verbatim>\<open>EMAIL\<close> section,
  \<^verbatim>\<open>load_config\<close> raises \<^verbatim>\<open>KeyError\<close> for \<^verbatim>\<open>EMAIL\<close>, not the missing-file error, and logs
  nothing; \<^verbatim>\<open>main\<close> catches it in its generic handler. When the parser raises on the
  file, \<^verbatim>\<open>load_config\<close> raises the parser's error instead, which \<^verbatim>\<open>main\<close> catches and
  logs too, a parser error in the generic handler. In each case \<^verbatim>\<open>main\<close> returns having
  called neither \<^verbatim>\<open>create_email\<close> nor \<^verbatim>\<open>send_email\<close>.
\<close>

theorem missing_section_errors:
  assumes "path_exists w CONFIG_FILE"
  shows "(ini_file w CONFIG_FILE = Unopenable \<or>
          ini_file w CONFIG_FILE = Parsed doc \<and> ''EMAIL'' \<notin> fst ` set doc \<longrightarrow>
            load_config w CONFIG_FILE = (Inl (KeyError ''EMAIL''), []) \<and>
            main w env a =
              (Inr (),
               [Log ERROR (''Unexpected error occurred: '' @ [squote] @ ''EMAIL'' @ [squote])]) \<and>
            Call ''create_email'' \<notin> set (snd (main w env a)) \<and>
            Call ''send_email'' \<notin> set (snd (main w env a))) \<and>
         (ini_file w CONFIG_FILE = Malformed e \<longrightarrow>
            load_config w CONFIG_FILE = (Inl e, []) \<and>
            main w env a = (Inr (), snd (main_handler e)) \<and>
            Call ''create_email'' \<notin> set (snd (main w env a)) \<and>
            Call ''send_email'' \<notin> set (snd (main w env a))) \<and>
         (ini_file w CONFIG_FILE = Malformed (ConfigParserError t) \<longrightarrow>
            main w env a = (Inr (), [Log ERROR (''Unexpected error occurred: '' @ t)]))"
proof -
  have key: "load_config w CONFIG_FILE = (Inl (KeyError ''EMAIL''), [])"
    if "ini_file w CONFIG_FILE = Unopenable \<or>
        ini_file w CONFIG_FILE = Parsed doc \<and> ''EMAIL'' \<notin> fst ` set doc"
    using that load_config_unopenable [OF assms] load_config_no_section [OF assms]
    by blast
  have a: "main w env a =
      (Inr (), [Log ERROR (''Unexpected error occurred: '' @ [squote] @ ''EMAIL'' @ [squote])])"
    if "ini_file w CONFIG_FILE = Unopenable \<or>
        ini_file w CONFIG_FILE = Parsed doc \<and> ''EMAIL'' \<notin> fst ` set doc"
    using main_load_failure [OF key [OF that], of env a]
    by (simp add: logging_error_def emit_def)
  have mal: "load_config w CONFIG_FILE = (Inl e, [])" if "ini_file w CONFIG_FILE = Malformed e"
    using assms that by (rule load_config_malformed)
  have b: "main w env a = (Inr (), snd (main_handler e))"
    if "ini_file w CONFIG_FILE = Malformed e"
    using main_load_failure [OF mal [OF that], of env a] by simp
  have c: "Call ''create_email'' \<notin> set (snd (main w env a)) \<and>
           Call ''send_email'' \<notin> set (snd (main w env a))"
    if "ini_file w CONFIG_FILE = Malformed e"
  proof -
    obtain msg where "main_handler e = (Inr (), [Log ERROR msg])"
      using main_handler_returns by blast
    with b [OF that] show ?thesis by simp
  qed
  have d: "main w env a = (Inr (), [Log ERROR (''Unexpected error occurred: '' @ t)])"
    if "ini_file w CONFIG_FILE = Malformed (ConfigParserError t)"
  proof -
    have "load_config w CONFIG_FILE = (Inl (ConfigParserError t), [])"
      using assms that by (rule load_config_malformed)
    from main_load_failure [OF this, of env a] show ?thesis
      by (simp add: logging_error_def emit_def)
  qed
  from key a mal b c d show ?thesis by simp
qed

theorem missing_section_errors_witness:
  "path_exists other_section_world CONFIG_FILE \<and>
   ini_file other_section_world CONFIG_FILE = Parsed [(''SMTP'', [(''USERNAME'', ''u@x.com'')])] \<and>
   load_config other_section_world CONFIG_FILE = (Inl (KeyError ''EMAIL''), []) \<and>
   main other_section_world example_env example_args =
     (Inr (), [Log ERROR (''Unexpected error occurred: '' @ [squote] @ ''EMAIL'' @ [squote])]) \<and>
   path_exists headerless_world CONFIG_FILE \<and>
   ini_file headerless_world CONFIG_FILE = Malformed headerless_error \<and>
   load_config headerless_world CONFIG_FILE = (Inl headerless_error, []) \<and>
   main headerless_world example_env example_args =
     (Inr (), [Log ERROR (''Unexpected error occurred: '' @ exn_str headerless_error)])"
proof -
  let ?doc = "[(''SMTP'', [(''USERNAME'', ''u@x.com'')])]"
  have h1: "path_exists other_section_world CONFIG_FILE"
    by (simp add: other_section_world_def example_world_def CONFIG_FILE_def)
  have h2: "ini_file other_section_world CONFIG_FILE = Parsed ?doc"
    by (simp add: other_section_world_def)
  have h3: "''EMAIL'' \<notin> fst ` set ?doc"
    by simp
  have g1: "path_exists headerless_world CONFIG_FILE"
    by (simp add: headerless_world_def example_world_def CONFIG_FILE_def)
  have g2: "ini_file headerless_world CONFIG_FILE = Malformed headerless_error"
    by (simp add: headerless_world_def)
  from missing_section_errors [OF h1, of ?doc example_env example_args] h2 h3
  have p: "load_config other_section_world CONFIG_FILE = (Inl (KeyError ''EMAIL''), [])"
    "main other_section_world example_env example_args =
       (Inr (), [Log ERROR (''Unexpected error occurred: '' @ [squote] @ ''EMAIL'' @ [squote])])"
    by blast+
  from missing_section_errors [OF g1, of "[]" example_env example_args headerless_error] g2
  have q: "load_config headerless_world CONFIG_FILE = (Inl headerless_error, [])"
    "main headerless_world example_env example_args = (Inr (), snd (main_handler headerless_error))"
    by blast+
  have "snd (main_handler headerless_error) =
          [Log ERROR (''Unexpected error occurred: '' @ exn_str headerless_error)]"
    by (simp add: headerless_error_def logging_error_def emit_def)
  with q(2) have r: "main headerless_world example_env example_args =
     (Inr (), [Log ERROR (''Unexpected error occurred: '' @ exn_str headerless_error)])"
    by simp
  from h1 h2 p g1 g2 q(1) r show ?thesis by blast
qed

text \<open>
  Claim C2 says that the recipients form a set union, holding no address twice. The
  code concatenates the lists: with \<^verbatim>\<open>b@x.com\<close> in both the CC and the BCC list, the list
  handed to \<^verbatim>\<open>sendmail\<close> holds it twice.
\<close>

theorem envelope_duplicates_counterexample:
  "sendmail_rcpts (snd (send_email example_env example_config example_message ''u@x.com'' ''a@x.com''
      [''b@x.com''] [''b@x.com''] False)) = [[''a@x.com'', ''b@x.com'', ''b@x.com'']] \<and>
   \<not> list_all distinct
     (sendmail_rcpts (snd (send_email example_env example_config example_message ''u@x.com''
        ''a@x.com'' [''b@x.com''] [''b@x.com''] False)))"
proof -
  have s: "sendmail_rcpts (snd (send_email example_env example_config example_message ''u@x.com''
      ''a@x.com'' [''b@x.com''] [''b@x.com''] False)) = [[''a@x.com'', ''b@x.com'', ''b@x.com'']]"
    using send_email_reaches_send [of example_config "''smtp.x.com''" "''587''" example_env 587
        "''u@x.com''" "''pw''" example_message "''wire''" "''u@x.com''" "''a@x.com''"
        "[''b@x.com'']" "[''b@x.com'']"]
    by (simp add: example_config_def example_env_def dict_getitem_def)
  then show ?thesis by simp
qed

text \<open>
  Claim C2, amended. When the send is not a dry run and reaches the dispatch (host and
  port are in the dictionary, the port converts, connecting, STARTTLS and login succeed,
  the message serialises), \<^verbatim>\<open>sendmail\<close> is called once, with the list
  \<^verbatim>\<open>[receiver] + cc + bcc\<close>: the receiver, then the CC addresses in order, then the BCC
  addresses in order, duplicates kept. The addresses of that list are the union of the
  receiver, the CC and the BCC addresses. No call of \<^verbatim>\<open>send_email\<close> hands any other list
  to \<^verbatim>\<open>sendmail\<close>.
\<close>

theorem envelope_recipient_list:
  assumes "dict_getitem config ''SMTP_SERVER'' = Inr host"
    and "dict_getitem config ''SMTP_PORT'' = Inr port_str"
    and "int_of env port_str = Inr port"
    and "smtp_connect env host port = None"
    and "smtp_starttls env = None"
    and "dict_getitem config ''USERNAME'' = Inr username"
    and "dict_getitem config ''PASSWORD'' = Inr password"
    and "smtp_login env username password = None"
    and "msg_as_string env message = Inr wire"
  shows "sendmail_rcpts (snd (send_email env config message sender receiver cc bcc False)) =
           [[receiver] @ cc @ bcc] \<and>
         Sendmail sender ([receiver] @ cc @ bcc) wire \<in>
           set (snd (send_email env config message sender receiver cc bcc False)) \<and>
         set ([receiver] @ cc @ bcc) = {receiver} \<union> set cc \<union> set bcc \<and>
         (sendmail_rcpts (snd (send_email env' config' message sender receiver cc bcc dry_run)) = [] \<or>
          sendmail_rcpts (snd (send_email env' config' message sender receiver cc bcc dry_run)) =
            [[receiver] @ cc @ bcc])"
proof -
  have a: "sendmail_rcpts (snd (send_email env config message sender receiver cc bcc False)) =
           [[receiver] @ cc @ bcc]"
    using send_email_reaches_send [OF assms] by simp
  have "Sendmail sender (receiver # cc @ bcc) wire \<in>
          set (snd (send_session env config message sender receiver cc bcc))"
    using send_session_reaches_send [OF assms(5-9), of sender receiver cc bcc] by simp
  then have "Sendmail sender (receiver # cc @ bcc) wire \<in>
          set (snd (send_block env config message sender receiver cc bcc))"
    using assms(1-4) by (simp add: send_block_trace)
  moreover have "set (snd (send_block env config message sender receiver cc bcc)) \<subseteq>
      set (snd (send_email env config message sender receiver cc bcc False))"
    by (cases "send_block env config message sender receiver cc bcc")
      (auto simp: send_email_def try_except_def split: sum.splits prod.splits)
  ultimately have b: "Sendmail sender ([receiver] @ cc @ bcc) wire \<in>
           set (snd (send_email env config message sender receiver cc bcc False))"
    by auto
  have c: "set ([receiver] @ cc @ bcc) = {receiver} \<union> set cc \<union> set bcc"
    by auto
  from a b c send_email_rcpts [of env' config' message sender receiver cc bcc dry_run]
  show ?thesis by simp
qed

theorem envelope_recipient_list_witness:
  "dict_getitem example_config ''SMTP_SERVER'' = Inr ''smtp.x.com'' \<and>
   int_of example_env ''587'' = Inr 587 \<and>
   smtp_login example_env ''u@x.com'' ''pw'' = None \<and>
   sendmail_rcpts (snd (send_email example_env example_config example_message ''u@x.com'' ''a@x.com''
      [''b@x.com''] [''b@x.com'', ''c@x.com''] False)) =
     [[''a@x.com'', ''b@x.com'', ''b@x.com'', ''c@x.com'']] \<and>
   Sendmail ''u@x.com'' [''a@x.com'', ''b@x.com'', ''b@x.com'', ''c@x.com''] ''wire'' \<in>
     set (snd (send_email example_env example_config example_message ''u@x.com'' ''a@x.com''
      [''b@x.com''] [''b@x.com'', ''c@x.com''] False))"
proof -
  have h1: "dict_getitem example_config ''SMTP_SERVER'' = Inr ''smtp.x.com''"
    and h2: "dict_getitem example_config ''SMTP_PORT'' = Inr ''587''"
    and h6: "dict_getitem example_config ''USERNAME'' = Inr ''u@x.com''"
    and h7: "dict_getitem example_config ''PASSWORD'' = Inr ''pw''"
    by (simp_all add: example_config_def dict_getitem_def)
  have h3: "int_of example_env ''587'' = Inr 587"
    and h4: "smtp_connect example_env ''smtp.x.com'' 587 = None"
    and h5: "smtp_starttls example_env = None"
    and h8: "smtp_login example_env ''u@x.com'' ''pw'' = None"
    and h9: "msg_as_string example_env example_message = Inr ''wire''"
    by (simp_all add: example_env_def)
  from envelope_recipient_list [OF h1 h2 h3 h4 h5 h6 h7 h8 h9, of "''u@x.com''" "''a@x.com''"
      "[''b@x.com'']" "[''b@x.com'', ''c@x.com'']" example_env example_config False]
    h1 h3 h8
  show ?thesis by simp
qed

text \<open>
  Claim C3. The built message has exactly one text part, its first part: the HTML part
  with the HTML content when that is not empty, otherwise the plain part with the body;
  the parts after it are the attachments. With HTML content there is no plain part,
  without it there is no HTML part. An absent \<^verbatim>\<open>--html\<close> reaches \<^verbatim>\<open>create_email\<close> as
  the empty string.
\<close>

theorem create_email_body_part:
  assumes "create_email w sender receiver subject body attachments cc bcc html_content = (Inr m, tr)"
  shows "filter (\<lambda>q. maintype q = ''text'') (parts m) =
           [if html_content \<noteq> [] then MIMEText html_content ''html'' else MIMEText body ''plain''] \<and>
         hd (parts m) =
           (if html_content \<noteq> [] then MIMEText html_content ''html'' else MIMEText body ''plain'') \<and>
         list_all (\<lambda>q. maintype q = ''application'' \<and> subtype q = ''octet-stream'') (tl (parts m)) \<and>
         (html_content \<noteq> [] \<longrightarrow> \<not> list_ex (\<lambda>q. subtype q = ''plain'') (parts m)) \<and>
         (html_content = [] \<longrightarrow> \<not> list_ex (\<lambda>q. subtype q = ''html'') (parts m)) \<and>
         html_or_empty None = [] \<and> html_or_empty (Some h) = h"
proof -
  note m = create_email_Inr(1) [OF assms]
  have p: "parts m = (if html_content \<noteq> [] then MIMEText html_content ''html''
                      else MIMEText body ''plain'') # read_parts w attachments"
    by (subst m) simp
  have app: "list_all (\<lambda>q. maintype q = ''application'' \<and> subtype q = ''octet-stream'')
               (read_parts w attachments)"
    by (rule read_parts_application)
  have a: "filter (\<lambda>q. maintype q = ''text'') (parts m) =
           [if html_content \<noteq> [] then MIMEText html_content ''html'' else MIMEText body ''plain'']"
    by (simp add: p read_parts_no_text MIMEText_def)
  have b: "list_all (\<lambda>q. maintype q = ''application'' \<and> subtype q = ''octet-stream'') (tl (parts m))"
    using app by (simp add: p)
  have c: "\<not> list_ex (\<lambda>q. subtype q = ''plain'') (parts m)" if "html_content \<noteq> []"
    using app that by (auto simp: p MIMEText_def list_all_iff list_ex_iff)
  have d: "\<not> list_ex (\<lambda>q. subtype q = ''html'') (parts m)" if "html_content = []"
    using app that by (auto simp: p MIMEText_def list_all_iff list_ex_iff)
  have e: "html_or_empty None = []" "html_or_empty (Some h) = h"
    by (simp_all add: html_or_empty_def)
  from a b c d e show ?thesis by (simp add: p)
qed

theorem create_email_body_part_witness:
  "create_email example_world ''u@x.com'' ''a@x.com'' ''Hi'' ''Hello''
     [''/tmp/docs/a.txt'', ''/nope/b.txt''] [] [] ''<b>Hello</b>'' =
     (Inr \<lparr>headers = [(''Content-Type'', ''multipart/mixed''), (''MIME-Version'', ''1.0''),
                      (''From'', ''Sender <u@x.com>''), (''To'', ''a@x.com''), (''Subject'', ''Hi'')],
           parts = [MIMEText ''<b>Hello</b>'' ''html'', file_part ''data'' ''/tmp/docs/a.txt'']\<rparr>,
      [Log ERROR ''Failed to attach /nope/b.txt: No such file or directory'']) \<and>
   filter (\<lambda>q. maintype q = ''text'')
     [MIMEText ''<b>Hello</b>'' ''html'', file_part ''data'' ''/tmp/docs/a.txt''] =
     [MIMEText ''<b>Hello</b>'' ''html'']"
proof -
  have h: "create_email example_world ''u@x.com'' ''a@x.com'' ''Hi'' ''Hello''
     [''/tmp/docs/a.txt'', ''/nope/b.txt''] [] [] ''<b>Hello</b>'' =
     (Inr \<lparr>headers = [(''Content-Type'', ''multipart/mixed''), (''MIME-Version'', ''1.0''),
                      (''From'', ''Sender <u@x.com>''), (''To'', ''a@x.com''), (''Subject'', ''Hi'')],
           parts = [MIMEText ''<b>Hello</b>'' ''html'', file_part ''data'' ''/tmp/docs/a.txt'']\<rparr>,
      [Log ERROR ''Failed to attach /nope/b.txt: No such file or directory''])"
    by (simp add: create_email_eq is_ascii_def read_parts_Nil read_parts_Cons failure_logs_Nil
          failure_logs_Cons example_world_def)
  from create_email_body_part [OF h] h show ?thesis by simp
qed

text \<open>
  Claim C4. Whether \<^verbatim>\<open>create_email\<close> returns does not depend on the attachments: with a
  sender that \<^verbatim>\<open>formataddr\<close> accepts it returns for every list of paths, and the message
  is the one built without attachments followed by the parts of the files that could be
  read, in order, with one error record for each file that could not. A path whose read
  fails contributes that record and no part, and leaves the parts of the paths before and
  after it as they are.
\<close>

theorem attachment_failures_skipped:
  assumes "is_ascii sender"
  shows "(\<exists>m0. create_email w sender receiver subject body [] cc bcc html_content = (Inr m0, []) \<and>
           create_email w sender receiver subject body attachments cc bcc html_content =
             (Inr (m0\<lparr>parts := parts m0 @ read_parts w attachments\<rparr>),
              failure_logs w attachments)) \<and>
         (read_bytes w p = Inl e \<longrightarrow>
            read_parts w (before @ p # after) = read_parts w before @ read_parts w after \<and>
            failure_logs w [p] = [Log ERROR (''Failed to attach '' @ p @ '': '' @ exn_str e)]) \<and>
         (read_bytes w p = Inr dat \<longrightarrow>
            read_parts w (before @ p # after) =
              read_parts w before @ file_part dat p # read_parts w after \<and>
            failure_logs w [p] = [])"
proof -
  have a: "\<exists>m0. create_email w sender receiver subject body [] cc bcc html_content = (Inr m0, []) \<and>
           create_email w sender receiver subject body attachments cc bcc html_content =
             (Inr (m0\<lparr>parts := parts m0 @ read_parts w attachments\<rparr>),
              failure_logs w attachments)"
    using assms by (simp add: create_email_eq read_parts_Nil failure_logs_Nil)
  have b: "read_parts w (before @ p # after) = read_parts w before @ read_parts w after"
    "failure_logs w [p] = [Log ERROR (''Failed to attach '' @ p @ '': '' @ exn_str e)]"
    if "read_bytes w p = Inl e"
    using that
    by (simp_all add: read_parts_append read_parts_Cons failure_logs_Cons failure_logs_Nil)
  have c: "read_parts w (before @ p # after) =
              read_parts w before @ file_part dat p # read_parts w after"
    "failure_logs w [p] = []"
    if "read_bytes w p = Inr dat"
    using that
    by (simp_all add: read_parts_append read_parts_Cons failure_logs_Cons failure_logs_Nil)
  from a b c show ?thesis by blast
qed

theorem attachment_failures_skipped_witness:
  "is_ascii ''u@x.com'' \<and>
   read_bytes example_world ''/nope/b.txt'' = Inl (FileNotFoundError ''No such file or directory'') \<and>
   create_email example_world ''u@x.com'' ''a@x.com'' ''Hi'' ''Hello''
     [''/nope/b.txt'', ''/tmp/docs/a.txt''] [] [] [] =
     (Inr \<lparr>headers = [(''Content-Type'', ''multipart/mixed''), (''MIME-Version'', ''1.0''),
                      (''From'', ''Sender <u@x.com>''), (''To'', ''a@x.com''), (''Subject'', ''Hi'')],
           parts = [MIMEText ''Hello'' ''plain'', file_part ''data'' ''/tmp/docs/a.txt'']\<rparr>,
      [Log ERROR ''Failed to attach /nope/b.txt: No such file or directory''])"
proof -
  have h: "is_ascii ''u@x.com''"
    by (simp add: is_ascii_def)
  have r: "read_bytes example_world ''/nope/b.txt'' = Inl (FileNotFoundError ''No such file or directory'')"
    "read_bytes example_world ''/tmp/docs/a.txt'' = Inr ''data''"
    by (simp_all add: example_world_def)
  from attachment_failures_skipped [OF h, of example_world "''a@x.com''" "''Hi''" "''Hello''" "[]" "[]"
      "[]" "[''/nope/b.txt'', ''/tmp/docs/a.txt'']" "''/nope/b.txt''"
      "FileNotFoundError ''No such file or directory''" "[]" "[''/tmp/docs/a.txt'']" "''data''"]
  obtain m0 where m0: "create_email example_world ''u@x.com'' ''a@x.com'' ''Hi'' ''Hello'' [] [] [] [] =
        (Inr m0, [])"
    and full: "create_email example_world ''u@x.com'' ''a@x.com'' ''Hi'' ''Hello''
        [''/nope/b.txt'', ''/tmp/docs/a.txt''] [] [] [] =
        (Inr (m0\<lparr>parts := parts m0 @ read_parts example_world [''/nope/b.txt'', ''/tmp/docs/a.txt'']\<rparr>),
         failure_logs example_world [''/nope/b.txt'', ''/tmp/docs/a.txt''])"
    by blast
  from m0 have "m0 = \<lparr>headers = [(''Content-Type'', ''multipart/mixed''), (''MIME-Version'', ''1.0''),
                      (''From'', ''Sender <u@x.com>''), (''To'', ''a@x.com''), (''Subject'', ''Hi'')],
           parts = [MIMEText ''Hello'' ''plain'']\<rparr>"
    by (simp add: create_email_eq h read_parts_Nil)
  with full h r show ?thesis
    by (simp add: read_parts_Cons read_parts_Nil failure_logs_Cons failure_logs_Nil)
qed



text \<open>
  The \<^verbatim>\<open>From\<close> header of the built message carries the sender that \<^verbatim>\<open>main\<close> passes, the
  \<^verbatim>\<open>USERNAME\<close> of the configuration.
\<close>

lemma from_header_is_sender:
  assumes "create_email w sender receiver subject body attachments cc bcc html_content = (Inr m, tr)"
  shows "map_of (headers m) ''From'' = Some (''Sender <'' @ sender @ ''>'')"
  by (subst create_email_Inr(1) [OF assms]) simp

text \<open>
  Claim C8, at a configuration file with the four keys in upper case and a run that is
  not a dry run. \<^verbatim>\<open>config["USERNAME"]\<close> on the section finds the address, but
  \<^verbatim>\<open>dict(config)\<close> has the names as the parser stored them, in lower case, so
  \<^verbatim>\<open>config['SMTP_SERVER']\<close> in \<^verbatim>\<open>send_email\<close> raises \<^verbatim>\<open>KeyError\<close>: the run logs the failure
  and never logs in. Called with a dictionary that has the upper-case keys,
  \<^verbatim>\<open>send_email\<close> does log in with the \<^verbatim>\<open>USERNAME\<close> value.
\<close>

theorem username_never_authenticates:
  "main example_world example_env example_args =
     (Inr (), [Call ''create_email'', Call ''send_email'',
               Log ERROR (''Failed to send email: '' @ [squote] @ ''SMTP_SERVER'' @ [squote])]) \<and>
   proxy_getitem example_world
     \<lparr>own_options = store_options (snd (hd example_doc)), default_options = []\<rparr> ''USERNAME'' =
     Inr ''u@x.com'' \<and>
   dict_of_proxy example_world
     \<lparr>own_options = store_options (snd (hd example_doc)), default_options = []\<rparr> =
     Inr [(''smtp_server'', ''smtp.x.com''), (''smtp_port'', ''587''),
          (''username'', ''u@x.com''), (''password'', ''pw'')] \<and>
   snd (send_email example_env example_config example_message ''u@x.com'' ''a@x.com''
          [''b@x.com''] [''c@x.com''] False) =
     [Connect ''smtp.x.com'' 587, Starttls, Login ''u@x.com'' ''pw'',
      Sendmail ''u@x.com'' [''a@x.com'', ''b@x.com'', ''c@x.com''] ''wire'',
      Log INFO ''Email sent successfully to a@x.com, b@x.com, c@x.com'', Quit]"
  by code_simp

end
